theory Spec2Isabelle
  imports Complex_Main
begin

section \<open>Values\<close>

text \<open>
  The request handlers of \<^verbatim>\<open>Server.js\<close> work on JavaScript values. A field of a parsed
  JSON request body is modelled as a primitive value (the body is the list of its
  properties, each name once); a field that the body does not carry reads as
  \<open>Undefined\<close>, as a property lookup does. A field that holds an array or an object
  is outside the model. Numbers are given by their exact value. Strings are byte
  strings: a character outside ASCII is written as its UTF-8 bytes.

  Values that can be nested (a decoded syllabus, a row of a table, a response body) are
  of type \<open>json\<close>. An object is the list of its properties in insertion order.
\<close>

datatype prim = Undefined | Null | Bool bool | Num rat | Str string

datatype json = Prim prim | Arr "json list" | Obj "(string \<times> json) list"

type_synonym row = "(string \<times> json) list"

text \<open>JavaScript's conversion to a boolean, as \<^verbatim>\<open>!x\<close> and \<^verbatim>\<open>x && ...\<close> apply it.\<close>

fun truthy :: "prim \<Rightarrow> bool" where
  "truthy Undefined = False"
| "truthy Null = False"
| "truthy (Bool b) = b"
| "truthy (Num n) = (n \<noteq> 0)"
| "truthy (Str s) = (s \<noteq> [])"

fun truthy_json :: "json \<Rightarrow> bool" where
  "truthy_json (Prim p) = truthy p"
| "truthy_json (Arr xs) = True"
| "truthy_json (Obj kvs) = True"

text \<open>\<^verbatim>\<open>typeof v === "string"\<close>\<close>

fun is_string :: "json \<Rightarrow> bool" where
  "is_string (Prim (Str s)) = True"
| "is_string v = False"

text \<open>Reading a property: \<^verbatim>\<open>obj.k\<close> is \<^verbatim>\<open>undefined\<close> when the object has no such property.\<close>

definition field :: "(string \<times> prim) list \<Rightarrow> string \<Rightarrow> prim" where
  "field body k = (case map_of body k of None \<Rightarrow> Undefined | Some v \<Rightarrow> v)"

definition get_prop :: "row \<Rightarrow> string \<Rightarrow> json" where
  "get_prop r k = (case map_of r k of None \<Rightarrow> Prim Undefined | Some v \<Rightarrow> v)"

text \<open>Writing a property: \<^verbatim>\<open>obj.k = v\<close> replaces the value in place, or adds the property last.\<close>

fun set_prop :: "row \<Rightarrow> string \<Rightarrow> json \<Rightarrow> row" where
  "set_prop [] k v = [(k, v)]"
| "set_prop ((k', v') # r) k v = (if k' = k then (k, v) # r else (k', v') # set_prop r k v)"

text \<open>
  A template literal is kept as its parts: the literal text and the substituted values,
  in order.
\<close>

datatype part = Lit string | Sub prim

section \<open>Decoding JSON text\<close>

text \<open>
  \<^verbatim>\<open>JSON.parse\<close> belongs to the JavaScript runtime. It is modelled after the JSON
  grammar: the text is cut into tokens, and the tokens are read by a machine that keeps
  the containers still open on a stack. \<open>None\<close> is the \<^verbatim>\<open>SyntaxError\<close> it throws. A number
  is decoded to the exact value of its literal; a repeated key keeps its first position
  and its last value, and the properties of an object stay in the order of the text
  (JavaScript lists integer-like keys first; the order plays no part below).
\<close>

datatype token =
  LBrace | RBrace | LBrack | RBrack | Colon | Comma
| TStr string | TNum rat | TTrue | TFalse | TNull

definition is_ws :: "char \<Rightarrow> bool" where
  "is_ws c = (c = CHR 0x20 \<or> c = CHR 0x09 \<or> c = CHR 0x0A \<or> c = CHR 0x0D)"

definition is_digit :: "char \<Rightarrow> bool" where
  "is_digit c = (48 \<le> (of_char c :: nat) \<and> (of_char c :: nat) \<le> 57)"

definition digits_val :: "string \<Rightarrow> nat" where
  "digits_val ds = foldl (\<lambda>a c. 10 * a + (of_char c - 48)) 0 ds"

definition hex_val :: "char \<Rightarrow> nat option" where
  "hex_val c =
     (let n = (of_char c :: nat) in
      if 48 \<le> n \<and> n \<le> 57 then Some (n - 48)
      else if 65 \<le> n \<and> n \<le> 70 then Some (n - 55)
      else if 97 \<le> n \<and> n \<le> 102 then Some (n - 87)
      else None)"

text \<open>The code unit of \<^verbatim>\<open>\uXXXX\<close>, from the four characters after the \<^verbatim>\<open>u\<close>.\<close>

definition hex4 :: "string \<Rightarrow> nat option" where
  "hex4 cs =
     (case map hex_val (take 4 cs) of
        [Some a, Some b, Some c, Some d] \<Rightarrow> Some (((a * 16 + b) * 16 + c) * 16 + d)
      | _ \<Rightarrow> None)"

definition utf8 :: "nat \<Rightarrow> string" where
  "utf8 cp =
     (if cp < 0x80 then [char_of cp]
      else if cp < 0x800 then [char_of (0xC0 + cp div 64), char_of (0x80 + cp mod 64)]
      else if cp < 0x10000 then
        [char_of (0xE0 + cp div 4096), char_of (0x80 + cp div 64 mod 64),
         char_of (0x80 + cp mod 64)]
      else
        [char_of (0xF0 + cp div 262144), char_of (0x80 + cp div 4096 mod 64),
         char_of (0x80 + cp div 64 mod 64), char_of (0x80 + cp mod 64)])"

definition simple_escape :: "char \<Rightarrow> char option" where
  "simple_escape e =
     (if e = CHR 0x22 then Some (CHR 0x22)
      else if e = CHR 0x5C then Some (CHR 0x5C)
      else if e = CHR ''/'' then Some (CHR ''/'')
      else if e = CHR ''b'' then Some (CHR 0x08)
      else if e = CHR ''f'' then Some (CHR 0x0C)
      else if e = CHR ''n'' then Some (CHR 0x0A)
      else if e = CHR ''r'' then Some (CHR 0x0D)
      else if e = CHR ''t'' then Some (CHR 0x09)
      else None)"

text \<open>
  The text after an opening quote: the decoded string and the number of characters read,
  closing quote included. Two escapes that form a surrogate pair are one code point.
\<close>

fun lex_string :: "string \<Rightarrow> (string \<times> nat) option" where
  "lex_string [] = None"
| "lex_string (c # cs) =
     (if c = CHR 0x22 then Some ([], 1)
      else if c = CHR 0x5C then
        (case cs of
           [] \<Rightarrow> None
         | e # cs' \<Rightarrow>
             if e = CHR ''u'' then
               (case hex4 cs' of
                  None \<Rightarrow> None
                | Some h \<Rightarrow>
                    (case (if 0xD800 \<le> h \<and> h \<le> 0xDBFF \<and> take 2 (drop 4 cs') = [CHR 0x5C, CHR ''u'']
                           then hex4 (drop 6 cs') else None) of
                       Some l \<Rightarrow>
                         if 0xDC00 \<le> l \<and> l \<le> 0xDFFF then
                           (case lex_string (drop 10 cs') of
                              None \<Rightarrow> None
                            | Some (s, n) \<Rightarrow>
                                Some (utf8 (0x10000 + (h - 0xD800) * 0x400 + (l - 0xDC00)) @ s,
                                      n + 12))
                         else
                           (case lex_string (drop 4 cs') of
                              None \<Rightarrow> None
                            | Some (s, n) \<Rightarrow> Some (utf8 h @ s, n + 6))
                     | None \<Rightarrow>
                         (case lex_string (drop 4 cs') of
                            None \<Rightarrow> None
                          | Some (s, n) \<Rightarrow> Some (utf8 h @ s, n + 6))))
             else
               (case simple_escape e of
                  None \<Rightarrow> None
                | Some b \<Rightarrow>
                    (case lex_string cs' of
                       None \<Rightarrow> None
                     | Some (s, n) \<Rightarrow> Some (b # s, n + 2))))
      else if (of_char c :: nat) < 0x20 then None
      else
        (case lex_string cs of
           None \<Rightarrow> None
         | Some (s, n) \<Rightarrow> Some (c # s, n + 1)))"

text \<open>
  A number literal at the head of the text: its value and the number of characters read.
  A literal that breaks off (\<^verbatim>\<open>-\<close>, \<^verbatim>\<open>1.\<close>, \<^verbatim>\<open>1e\<close>) or goes on after a leading zero (\<^verbatim>\<open>01\<close>)
  makes the whole text invalid.
\<close>

definition lex_number :: "string \<Rightarrow> (rat \<times> nat) option" where
  "lex_number cs =
     (let neg = (take 1 cs = ''-'');
          s1 = (if neg then drop 1 cs else cs);
          ds = takeWhile is_digit s1;
          r1 = dropWhile is_digit s1;
          has_frac = (take 1 r1 = ''.'');
          fs = (if has_frac then takeWhile is_digit (drop 1 r1) else []);
          r2 = (if has_frac then dropWhile is_digit (drop 1 r1) else r1);
          has_exp = (take 1 r2 = ''e'' \<or> take 1 r2 = ''E'');
          r3 = (if has_exp then drop 1 r2 else r2);
          eneg = (has_exp \<and> take 1 r3 = ''-'');
          r4 = (if has_exp \<and> (take 1 r3 = ''-'' \<or> take 1 r3 = ''+'') then drop 1 r3 else r3);
          es = (if has_exp then takeWhile is_digit r4 else []);
          r5 = (if has_exp then dropWhile is_digit r4 else r4);
          m = (of_nat (digits_val (ds @ fs)) :: rat) / 10 ^ length fs;
          v = (if eneg then m / 10 ^ digits_val es else m * 10 ^ digits_val es)
      in
        if ds = [] \<or> (take 1 ds = ''0'' \<and> length ds > 1) \<or> (has_frac \<and> fs = [])
           \<or> (has_exp \<and> es = [])
        then None
        else Some (if neg then - v else v, length cs - length r5))"

definition tok :: "token \<Rightarrow> token list option \<Rightarrow> token list option" where
  "tok t r = (case r of None \<Rightarrow> None | Some ts \<Rightarrow> Some (t # ts))"

fun lex :: "string \<Rightarrow> token list option" where
  "lex [] = Some []"
| "lex (c # cs) =
     (if is_ws c then lex cs
      else if c = CHR ''{'' then tok LBrace (lex cs)
      else if c = CHR ''}'' then tok RBrace (lex cs)
      else if c = CHR ''['' then tok LBrack (lex cs)
      else if c = CHR '']'' then tok RBrack (lex cs)
      else if c = CHR '':'' then tok Colon (lex cs)
      else if c = CHR '','' then tok Comma (lex cs)
      else if c = CHR 0x22 then
        (case lex_string cs of
           None \<Rightarrow> None
         | Some (s, n) \<Rightarrow> tok (TStr s) (lex (drop n cs)))
      else if c = CHR ''-'' \<or> is_digit c then
        (case lex_number (c # cs) of
           None \<Rightarrow> None
         | Some (v, n) \<Rightarrow> tok (TNum v) (lex (drop (n - 1) cs)))
      else if take 4 (c # cs) = ''true'' then tok TTrue (lex (drop 3 cs))
      else if take 5 (c # cs) = ''false'' then tok TFalse (lex (drop 4 cs))
      else if take 4 (c # cs) = ''null'' then tok TNull (lex (drop 3 cs))
      else None)"

text \<open>
  The containers that are open: an array with its elements so far, an object with its
  properties so far, and an object whose next value belongs to a key already read.
\<close>

datatype frame = InArr "json list" | InObj row | InField row string

text \<open>What the machine accepts next.\<close>

datatype mode = MValue | MValueOrEnd | MKeyOrEnd | MKey | MColon | MAfter | MDone json

text \<open>A value is complete: it is the document, or it goes into the innermost container.\<close>

definition complete :: "json \<Rightarrow> frame list \<Rightarrow> (frame list \<times> mode) option" where
  "complete v st =
     (case st of
        [] \<Rightarrow> Some ([], MDone v)
      | InArr es # st' \<Rightarrow> Some (InArr (es @ [v]) # st', MAfter)
      | InField ps k # st' \<Rightarrow> Some (InObj (set_prop ps k v) # st', MAfter)
      | InObj ps # st' \<Rightarrow> None)"

fun scalar_of :: "token \<Rightarrow> json option" where
  "scalar_of (TStr s) = Some (Prim (Str s))"
| "scalar_of (TNum n) = Some (Prim (Num n))"
| "scalar_of TTrue = Some (Prim (Bool True))"
| "scalar_of TFalse = Some (Prim (Bool False))"
| "scalar_of TNull = Some (Prim Null)"
| "scalar_of t = None"

definition value_step :: "bool \<Rightarrow> frame list \<Rightarrow> token \<Rightarrow> (frame list \<times> mode) option" where
  "value_step may_end st t =
     (if t = LBrack then Some (InArr [] # st, MValueOrEnd)
      else if t = LBrace then Some (InObj [] # st, MKeyOrEnd)
      else if t = RBrack then
        (case st of
           InArr es # st' \<Rightarrow> if may_end then complete (Arr es) st' else None
         | _ \<Rightarrow> None)
      else (case scalar_of t of Some v \<Rightarrow> complete v st | None \<Rightarrow> None))"

definition key_step :: "bool \<Rightarrow> frame list \<Rightarrow> token \<Rightarrow> (frame list \<times> mode) option" where
  "key_step may_end st t =
     (case st of
        InObj ps # st' \<Rightarrow>
          (case t of
             TStr k \<Rightarrow> Some (InField ps k # st', MColon)
           | RBrace \<Rightarrow> if may_end then complete (Obj ps) st' else None
           | _ \<Rightarrow> None)
      | _ \<Rightarrow> None)"

definition after_step :: "frame list \<Rightarrow> token \<Rightarrow> (frame list \<times> mode) option" where
  "after_step st t =
     (case st of
        InArr es # st' \<Rightarrow>
          if t = Comma then Some (st, MValue)
          else if t = RBrack then complete (Arr es) st'
          else None
      | InObj ps # st' \<Rightarrow>
          if t = Comma then Some (st, MKey)
          else if t = RBrace then complete (Obj ps) st'
          else None
      | _ \<Rightarrow> None)"

fun step :: "frame list \<times> mode \<Rightarrow> token \<Rightarrow> (frame list \<times> mode) option" where
  "step (st, MValue) t = value_step False st t"
| "step (st, MValueOrEnd) t = value_step True st t"
| "step (st, MKeyOrEnd) t = key_step True st t"
| "step (st, MKey) t = key_step False st t"
| "step (st, MColon) t = (if t = Colon then Some (st, MValue) else None)"
| "step (st, MAfter) t = after_step st t"
| "step (st, MDone v) t = None"

fun run :: "frame list \<times> mode \<Rightarrow> token list \<Rightarrow> json option" where
  "run (st, m) [] = (case m of MDone v \<Rightarrow> Some v | _ \<Rightarrow> None)"
| "run (st, m) (t # ts) = (case step (st, m) t of None \<Rightarrow> None | Some s' \<Rightarrow> run s' ts)"

definition JSON_parse :: "string \<Rightarrow> json option" where
  "JSON_parse s = (case lex s of None \<Rightarrow> None | Some ts \<Rightarrow> run ([], MValue) ts)"

section \<open>The world of a request\<close>

text \<open>
  An error object, as the store and the mail transport reject with: \<^verbatim>\<open>err.message\<close> is
  its text.
\<close>

datatype js_error = JsError (message: string)

record mail =
  mail_from :: "part list"
  mail_to :: prim
  mail_subject :: string
  mail_html :: "part list"

datatype console_arg = Message string | Thrown js_error

datatype console_call =
  ConsoleWarn "part list"
| ConsoleError "part list" console_arg

record response =
  status :: nat
  body :: json

text \<open>
  Everything a handler can read or change. The store is a black box: \<open>db_fault\<close>
  says which statements it rejects (and with which error), \<open>id_matches\<close> is its
  comparison \<^verbatim>\<open>id = ?\<close> of a stored id with a bound parameter, \<open>auto_increment\<close>
  is the identifier it assigns to the next inserted enrollment. \<open>transporter\<close> is
  \<open>None\<close> when no mail transport was configured at startup; a configured transport
  rejects a message with an error or accepts it.
\<close>

record world =
  courses :: "row list"
  enrollments :: "row list"
  auto_increment :: nat
  id_matches :: "json \<Rightarrow> string \<Rightarrow> bool"
  db_fault :: "string \<Rightarrow> prim list \<Rightarrow> js_error option"
  transporter :: "(mail \<Rightarrow> js_error option) option"
  EMAIL_USER :: prim
  sendMail_calls :: "mail list"
  console :: "console_call list"

text \<open>
  An asynchronous computation either resolves with a value or rejects with an error, and
  leaves the world changed by what it did before.
\<close>

type_synonym 'a io = "world \<Rightarrow> (js_error + 'a) \<times> world"

definition resolve :: "'a \<Rightarrow> 'a io" where
  "resolve v w = (Inr v, w)"

text \<open>\<^verbatim>\<open>const x = await m; k(x)\<close>: a rejection of \<open>m\<close> skips the rest.\<close>

definition await :: "'a io \<Rightarrow> ('a \<Rightarrow> 'b io) \<Rightarrow> 'b io" where
  "await m k w = (case m w of (Inl e, w') \<Rightarrow> (Inl e, w') | (Inr v, w') \<Rightarrow> k v w')"

text \<open>\<^verbatim>\<open>try { m } catch (err) { h(err) }\<close>\<close>

definition try_catch :: "'a io \<Rightarrow> (js_error \<Rightarrow> 'a io) \<Rightarrow> 'a io" where
  "try_catch m h w = (case m w of (Inl e, w') \<Rightarrow> h e w' | (Inr v, w') \<Rightarrow> (Inr v, w'))"

definition console_warn :: "part list \<Rightarrow> unit io" where
  "console_warn t w = (Inr (), w\<lparr>console := console w @ [ConsoleWarn t]\<rparr>)"

definition console_error :: "part list \<Rightarrow> console_arg \<Rightarrow> unit io" where
  "console_error t a w = (Inr (), w\<lparr>console := console w @ [ConsoleError t a]\<rparr>)"

text \<open>\<^verbatim>\<open>res.status(n).json(b)\<close>; \<^verbatim>\<open>res.json(b)\<close> is \<open>respond 200 b\<close>.\<close>

definition respond :: "nat \<Rightarrow> json \<Rightarrow> response io" where
  "respond n b = resolve \<lparr>status = n, body = b\<rparr>"

subsection \<open>The store\<close>

definition SELECT_courses :: string where
  "SELECT_courses = ''SELECT * FROM courses''"

definition SELECT_course_by_id :: string where
  "SELECT_course_by_id = ''SELECT * FROM courses WHERE id = ?''"

definition INSERT_enrollment :: string where
  "INSERT_enrollment =
     ''INSERT INTO enrollments (name, email, phone, status, course_id) VALUES (?, ?, ?, ?, ?)''"

text \<open>\<^verbatim>\<open>db.query("SELECT * FROM courses")\<close>: the rows of the table.\<close>

definition db_select_courses :: "row list io" where
  "db_select_courses w =
     (case db_fault w SELECT_courses [] of
        Some e \<Rightarrow> (Inl e, w)
      | None \<Rightarrow> (Inr (courses w), w))"

text \<open>\<^verbatim>\<open>db.execute("SELECT * FROM courses WHERE id = ?", [id])\<close>\<close>

definition courses_with_id :: "world \<Rightarrow> string \<Rightarrow> row list" where
  "courses_with_id w ident = filter (\<lambda>r. id_matches w (get_prop r ''id'') ident) (courses w)"

definition db_select_course_by_id :: "string \<Rightarrow> row list io" where
  "db_select_course_by_id ident w =
     (case db_fault w SELECT_course_by_id [Str ident] of
        Some e \<Rightarrow> (Inl e, w)
      | None \<Rightarrow> (Inr (courses_with_id w ident), w))"

text \<open>
  \<^verbatim>\<open>db.query("INSERT INTO enrollments ...", [name, email, phone, status, courseId])\<close>:
  one row is added and the identifier the store assigned to it is the result's
  \<^verbatim>\<open>insertId\<close>. A rejected statement leaves the table as it was.
\<close>

definition enrollment_row :: "nat \<Rightarrow> prim \<Rightarrow> prim \<Rightarrow> prim \<Rightarrow> prim \<Rightarrow> prim \<Rightarrow> row" where
  "enrollment_row ident name email phone stat courseId =
     [(''id'', Prim (Num (of_nat ident))),
      (''name'', Prim name), (''email'', Prim email), (''phone'', Prim phone),
      (''status'', Prim stat), (''course_id'', Prim courseId)]"

definition db_insert_enrollment :: "prim \<Rightarrow> prim \<Rightarrow> prim \<Rightarrow> prim \<Rightarrow> prim \<Rightarrow> nat io" where
  "db_insert_enrollment name email phone stat courseId w =
     (case db_fault w INSERT_enrollment [name, email, phone, stat, courseId] of
        Some e \<Rightarrow> (Inl e, w)
      | None \<Rightarrow>
          (Inr (auto_increment w),
           w\<lparr>enrollments := enrollments w @
                [enrollment_row (auto_increment w) name email phone stat courseId],
             auto_increment := Suc (auto_increment w)\<rparr>))"

section \<open>Notification sender\<close>

text \<open>\<^verbatim>\<open>transporter.sendMail(m)\<close>: the call is made, and the transport accepts or rejects.\<close>

definition sendMail :: "(mail \<Rightarrow> js_error option) \<Rightarrow> mail \<Rightarrow> unit io" where
  "sendMail t m w =
     (case t m of
        Some e \<Rightarrow> (Inl e, w\<lparr>sendMail_calls := sendMail_calls w @ [m]\<rparr>)
      | None \<Rightarrow> (Inr (), w\<lparr>sendMail_calls := sendMail_calls w @ [m]\<rparr>))"

definition warning_sign :: string where
  "warning_sign = [CHR 0xE2, CHR 0x9A, CHR 0xA0, CHR 0xEF, CHR 0xB8, CHR 0x8F]"

text \<open>The text of the warning when no transport is configured.\<close>

definition skip_text :: "prim \<Rightarrow> part list" where
  "skip_text to =
     [Lit (warning_sign @ '' Skipping email to ''), Sub to, Lit '' - transporter not configured'']"

text \<open>The text logged, before the error's message, when the transport rejects.\<close>

definition failure_text :: "prim \<Rightarrow> part list" where
  "failure_text to = [Lit (warning_sign @ '' Failed to send email to ''), Sub to, Lit '':'']"

text \<open>The message handed to the transport.\<close>

definition mail_options :: "world \<Rightarrow> prim \<Rightarrow> string \<Rightarrow> part list \<Rightarrow> mail" where
  "mail_options w to subject html =
     \<lparr>mail_from = [Lit ([CHR 0x22] @ ''Deep Learner Academy'' @ [CHR 0x22] @ ''<''),
                   Sub (EMAIL_USER w), Lit ''>''],
      mail_to = to, mail_subject = subject, mail_html = html\<rparr>"

definition sendMailSafe :: "prim \<Rightarrow> string \<Rightarrow> part list \<Rightarrow> unit io" where
  "sendMailSafe to subject html w =
     (case transporter w of
        None \<Rightarrow> await (console_warn (skip_text to)) (\<lambda>_. resolve ()) w
      | Some t \<Rightarrow>
          try_catch
            (sendMail t (mail_options w to subject html))
            (\<lambda>err. console_error (failure_text to) (Message (message err))) w)"

section \<open>Courses\<close>

text \<open>The handler of \<^verbatim>\<open>GET /api/courses\<close>.\<close>

definition error_body :: "string \<Rightarrow> json" where
  "error_body msg = Obj [(''error'', Prim (Str msg))]"

definition get_courses :: "response io" where
  "get_courses =
     try_catch
       (await db_select_courses (\<lambda>results.
        respond 200 (Arr (map Obj results))))
       (\<lambda>err. respond 500 (error_body ''Database error''))"

text \<open>
  The syllabus of a fetched row: text that is not empty is decoded, and text that does
  not decode is replaced by the empty array. Any other value stays.
\<close>

definition decode_syllabus :: "row \<Rightarrow> row" where
  "decode_syllabus course =
     (if truthy_json (get_prop course ''syllabus'') \<and> is_string (get_prop course ''syllabus'')
      then
        (case get_prop course ''syllabus'' of
           Prim (Str s) \<Rightarrow>
             (case JSON_parse s of
                Some v \<Rightarrow> set_prop course ''syllabus'' v
              | None \<Rightarrow> set_prop course ''syllabus'' (Arr []))
         | _ \<Rightarrow> course)
      else course)"

definition cross_mark :: string where
  "cross_mark = [CHR 0xE2, CHR 0x9D, CHR 0x8C]"

text \<open>The handler of \<^verbatim>\<open>GET /api/courses/:id\<close>, on the id of the path.\<close>

definition get_course_by_id :: "string \<Rightarrow> response io" where
  "get_course_by_id ident =
     try_catch
       (await (db_select_course_by_id ident) (\<lambda>results.
        case results of
          [] \<Rightarrow> respond 404 (error_body ''Course not found'')
        | course # _ \<Rightarrow> respond 200 (Obj (decode_syllabus course))))
       (\<lambda>err.
          await (console_error [Lit (cross_mark @ '' Error fetching course by ID:'')] (Thrown err)) (\<lambda>_.
          respond 500 (error_body ''Internal server error'')))"

section \<open>Enrollment\<close>

definition admin_subject :: string where
  "admin_subject = [CHR 0xF0, CHR 0x9F, CHR 0x93, CHR 0xA9] @ '' New Enrollment''"

definition admin_html :: "prim \<Rightarrow> prim \<Rightarrow> prim \<Rightarrow> prim \<Rightarrow> prim \<Rightarrow> part list" where
  "admin_html name email phone stat courseId =
     [Lit ''<h2>'', Sub name, Lit '' enrolled in Course ID: '', Sub courseId,
      Lit (''</h2>'' @ [CHR 0x0A] @ ''       <p>Email: ''), Sub email,
      Lit (''</p>'' @ [CHR 0x0A] @ ''       <p>Phone: ''), Sub phone,
      Lit (''</p>'' @ [CHR 0x0A] @ ''       <p>Status: ''), Sub stat,
      Lit ''</p>'']"

definition user_subject :: string where
  "user_subject = [CHR 0xE2, CHR 0x9C, CHR 0x85] @ '' Enrollment Successful''"

definition user_html :: "prim \<Rightarrow> prim \<Rightarrow> part list" where
  "user_html name courseId =
     [Lit ''<h2>Hi '', Sub name,
      Lit ('',</h2>'' @ [CHR 0x0A] @ ''       <p>You are successfully enrolled in course ID: ''),
      Sub courseId,
      Lit (''! '' @ [CHR 0xF0, CHR 0x9F, CHR 0x8E, CHR 0x89] @ ''</p>'' @ [CHR 0x0A] @
           ''       <p>Our team will contact you soon.</p>'' @ [CHR 0x0A] @
           ''       <br/>- Deep Learner Academy Team'')]"

definition admin_address :: prim where
  "admin_address = Str ''deeplearneracademy@gmail.com''"

text \<open>The bodies of the three responses.\<close>

definition all_fields_required :: json where
  "all_fields_required =
     Obj [(''success'', Prim (Bool False)),
          (''message'', Prim (Str ''All fields are required''))]"

definition enrollment_successful :: "nat \<Rightarrow> json" where
  "enrollment_successful insertId =
     Obj [(''success'', Prim (Bool True)),
          (''message'', Prim (Str ''Enrollment successful, confirmation email sent'')),
          (''enrollmentId'', Prim (Num (of_nat insertId)))]"

definition server_error :: json where
  "server_error =
     Obj [(''success'', Prim (Bool False)),
          (''message'', Prim (Str ''Server error, please try again later''))]"

text \<open>\<^verbatim>\<open>status = "Pending"\<close> in the destructuring: the default stands in for \<^verbatim>\<open>undefined\<close> only.\<close>

definition status_or_default :: "(string \<times> prim) list \<Rightarrow> prim" where
  "status_or_default req_body =
     (case field req_body ''status'' of Undefined \<Rightarrow> Str ''Pending'' | v \<Rightarrow> v)"

text \<open>The handler of \<^verbatim>\<open>POST /api/enroll\<close>, on the parsed body of the request.\<close>

definition enroll :: "(string \<times> prim) list \<Rightarrow> response io" where
  "enroll req_body =
     (let name = field req_body ''name'';
          email = field req_body ''email'';
          phone = field req_body ''phone'';
          stat = status_or_default req_body;
          courseId = field req_body ''courseId''
      in
        if \<not> truthy name \<or> \<not> truthy email \<or> \<not> truthy phone \<or> \<not> truthy courseId
        then respond 400 all_fields_required
        else
          try_catch
            (await (db_insert_enrollment name email phone stat courseId) (\<lambda>insertId.
             await (sendMailSafe admin_address admin_subject
                      (admin_html name email phone stat courseId)) (\<lambda>_.
             await (sendMailSafe email user_subject (user_html name courseId)) (\<lambda>_.
             respond 201 (enrollment_successful insertId)))))
            (\<lambda>err.
               await (console_error [Lit ''Enrollment Error:''] (Thrown err)) (\<lambda>_.
               respond 500 server_error)))"

section \<open>Vocabulary of the properties\<close>

text \<open>The fields the enrollment handler tests before it touches the store.\<close>

definition required :: "string list" where
  "required = [''name'', ''email'', ''phone'', ''courseId'']"

text \<open>A submission passes the test when each of them is truthy.\<close>

definition valid :: "(string \<times> prim) list \<Rightarrow> bool" where
  "valid req_body = list_all (\<lambda>k. truthy (field req_body k)) required"

text \<open>The parameters bound to the insert, and the world once the store has accepted it.\<close>

definition insert_params :: "(string \<times> prim) list \<Rightarrow> prim list" where
  "insert_params req_body =
     [field req_body ''name'', field req_body ''email'', field req_body ''phone'',
      status_or_default req_body, field req_body ''courseId'']"

definition inserted :: "(string \<times> prim) list \<Rightarrow> world \<Rightarrow> world" where
  "inserted req_body w =
     w\<lparr>enrollments := enrollments w @
          [enrollment_row (auto_increment w) (field req_body ''name'') (field req_body ''email'')
             (field req_body ''phone'') (status_or_default req_body) (field req_body ''courseId'')],
       auto_increment := Suc (auto_increment w)\<rparr>"

text \<open>The two notifications of an enrollment, as handed to the transport.\<close>

definition admin_mail :: "world \<Rightarrow> (string \<times> prim) list \<Rightarrow> mail" where
  "admin_mail w req_body =
     mail_options w admin_address admin_subject
       (admin_html (field req_body ''name'') (field req_body ''email'') (field req_body ''phone'')
          (status_or_default req_body) (field req_body ''courseId''))"

definition user_mail :: "world \<Rightarrow> (string \<times> prim) list \<Rightarrow> mail" where
  "user_mail w req_body =
     mail_options w (field req_body ''email'') user_subject
       (user_html (field req_body ''name'') (field req_body ''courseId''))"

text \<open>What the sender logs for a message handed to the transport \<open>t\<close>.\<close>

definition logged_failure :: "(mail \<Rightarrow> js_error option) \<Rightarrow> mail \<Rightarrow> console_call list" where
  "logged_failure t m =
     (case t m of
        None \<Rightarrow> []
      | Some err \<Rightarrow> [ConsoleError (failure_text (mail_to m)) (Message (message err))])"

subsection \<open>A sample world\<close>

text \<open>
  Two courses, no enrollment yet, a store that accepts every statement and a transport
  that accepts every message; a store that rejects every statement; a transport that
  rejects what goes to the administrative address; a complete submission.
\<close>

definition demo_world :: world where
  "demo_world =
     \<lparr>courses =
        [[(''id'', Prim (Str ''1'')), (''title'', Prim (Str ''Deep Learning'')),
          (''syllabus'', Prim (Str ''[1,2,3]''))],
         [(''id'', Prim (Str ''2'')), (''title'', Prim (Str ''Vision'')),
          (''syllabus'', Prim (Str ''{not json''))]],
      enrollments = [], auto_increment = 41,
      id_matches = (\<lambda>v s. v = Prim (Str s)),
      db_fault = (\<lambda>_ _. None),
      transporter = Some (\<lambda>_. None),
      EMAIL_USER = Str ''academy@example.org'',
      sendMail_calls = [], console = []\<rparr>"

definition store_down :: "string \<Rightarrow> prim list \<Rightarrow> js_error option" where
  "store_down sql params = Some (JsError ''connect ECONNREFUSED'')"

definition admin_bounces :: "mail \<Rightarrow> js_error option" where
  "admin_bounces m = (if mail_to m = admin_address then Some (JsError ''Invalid login'') else None)"

definition ann :: "(string \<times> prim) list" where
  "ann = [(''name'', Str ''Ann''), (''email'', Str ''ann@example.org''), (''phone'', Str ''555''),
          (''courseId'', Num 7)]"

section \<open>The handlers, case by case\<close>

lemmas io_defs = resolve_def await_def try_catch_def console_warn_def
  console_error_def respond_def

lemmas demo_defs = demo_world_def ann_def field_def valid_def required_def status_or_default_def
  insert_params_def store_down_def

lemma sendMailSafe_unconfigured:
  "transporter w = None \<Longrightarrow>
   sendMailSafe to subject html w = (Inr (), w\<lparr>console := console w @ [ConsoleWarn (skip_text to)]\<rparr>)"
  by (simp add: sendMailSafe_def io_defs)

lemma sendMailSafe_configured:
  "transporter w = Some t \<Longrightarrow>
   sendMailSafe to subject html w =
     (Inr (), w\<lparr>sendMail_calls := sendMail_calls w @ [mail_options w to subject html],
               console := console w @ logged_failure t (mail_options w to subject html)\<rparr>)"
  by (simp add: sendMailSafe_def io_defs sendMail_def logged_failure_def mail_options_def
      split: option.splits)

lemma enroll_reject_400:
  "\<not> valid req_body \<Longrightarrow> enroll req_body w = (Inr \<lparr>status = 400, body = all_fields_required\<rparr>, w)"
  by (auto simp add: enroll_def Let_def io_defs valid_def required_def)

lemma enroll_insert_rejected:
  "valid req_body \<Longrightarrow> db_fault w INSERT_enrollment (insert_params req_body) = Some e \<Longrightarrow>
   enroll req_body w =
     (Inr \<lparr>status = 500, body = server_error\<rparr>,
      w\<lparr>console := console w @ [ConsoleError [Lit ''Enrollment Error:''] (Thrown e)]\<rparr>)"
  by (simp add: enroll_def Let_def io_defs valid_def required_def insert_params_def
      db_insert_enrollment_def)

lemma enroll_accepted_unconfigured:
  assumes "valid req_body" and "db_fault w INSERT_enrollment (insert_params req_body) = None"
    and "transporter w = None"
  shows "enroll req_body w =
     (Inr \<lparr>status = 201, body = enrollment_successful (auto_increment w)\<rparr>,
      (inserted req_body w)\<lparr>console := console w @
         [ConsoleWarn (skip_text admin_address), ConsoleWarn (skip_text (field req_body ''email''))]\<rparr>)"
  using assms
  by (simp add: enroll_def Let_def valid_def required_def insert_params_def
      db_insert_enrollment_def inserted_def sendMailSafe_unconfigured io_defs)

lemma enroll_accepted_configured:
  assumes "valid req_body" and "db_fault w INSERT_enrollment (insert_params req_body) = None"
    and "transporter w = Some t"
  shows "enroll req_body w =
     (Inr \<lparr>status = 201, body = enrollment_successful (auto_increment w)\<rparr>,
      (inserted req_body w)\<lparr>sendMail_calls := sendMail_calls w @ [admin_mail w req_body, user_mail w req_body],
         console := console w @ logged_failure t (admin_mail w req_body)
                     @ logged_failure t (user_mail w req_body)\<rparr>)"
  using assms
  by (simp add: enroll_def Let_def valid_def required_def insert_params_def
      db_insert_enrollment_def inserted_def sendMailSafe_configured io_defs
      admin_mail_def user_mail_def mail_options_def)

lemma enroll_accepted:
  assumes "valid req_body"
    and "db_fault w INSERT_enrollment (insert_params req_body) = None"
  shows "fst (enroll req_body w) =
           Inr \<lparr>status = 201, body = enrollment_successful (auto_increment w)\<rparr>
         \<and> enrollments (snd (enroll req_body w)) = enrollments (inserted req_body w)"
proof (cases "transporter w")
  case None
  with assms show ?thesis
    by (simp add: enroll_accepted_unconfigured inserted_def)
next
  case (Some t)
  with assms show ?thesis
    by (simp add: enroll_accepted_configured inserted_def)
qed

lemma field_removed: "field (filter (\<lambda>p. fst p \<noteq> k) req_body) k = Undefined"
proof -
  have "map_of (filter (\<lambda>p. fst p \<noteq> k) req_body) k = None"
    by (induction req_body) auto
  then show ?thesis by (simp add: field_def)
qed

lemma get_course_by_id_found:
  "db_fault w SELECT_course_by_id [Str ident] = None \<Longrightarrow> courses_with_id w ident = course # rest \<Longrightarrow>
   get_course_by_id ident w = (Inr \<lparr>status = 200, body = Obj (decode_syllabus course)\<rparr>, w)"
  by (simp add: get_course_by_id_def db_select_course_by_id_def io_defs)

lemma get_course_by_id_absent:
  "db_fault w SELECT_course_by_id [Str ident] = None \<Longrightarrow> courses_with_id w ident = [] \<Longrightarrow>
   get_course_by_id ident w = (Inr \<lparr>status = 404, body = error_body ''Course not found''\<rparr>, w)"
  by (simp add: get_course_by_id_def db_select_course_by_id_def io_defs)

lemma get_course_by_id_store_error:
  "db_fault w SELECT_course_by_id [Str ident] = Some e \<Longrightarrow>
   get_course_by_id ident w =
     (Inr \<lparr>status = 500, body = error_body ''Internal server error''\<rparr>,
      w\<lparr>console := console w @
           [ConsoleError [Lit (cross_mark @ '' Error fetching course by ID:'')] (Thrown e)]\<rparr>)"
  by (simp add: get_course_by_id_def db_select_course_by_id_def io_defs)

lemma decode_syllabus_text:
  "get_prop course ''syllabus'' = Prim (Str s) \<Longrightarrow> s \<noteq> [] \<Longrightarrow>
   decode_syllabus course =
     set_prop course ''syllabus'' (case JSON_parse s of Some v \<Rightarrow> v | None \<Rightarrow> Arr [])"
  by (simp add: decode_syllabus_def split: option.splits)

lemma get_prop_set_prop: "get_prop (set_prop r k v) k = v"
  by (induction r) (auto simp: get_prop_def)

lemma JSON_parse_123:
  "JSON_parse ''[1,2,3]'' = Some (Arr [Prim (Num 1), Prim (Num 2), Prim (Num 3)])"
  by code_simp

lemma JSON_parse_not_json: "JSON_parse ''{not json'' = None"
  by code_simp

lemma JSON_parse_empty: "JSON_parse [] = None"
  by (simp add: JSON_parse_def)

lemma demo_course_1:
  "courses_with_id demo_world ''1'' =
     [[(''id'', Prim (Str ''1'')), (''title'', Prim (Str ''Deep Learning'')),
       (''syllabus'', Prim (Str ''[1,2,3]''))]]"
  by (simp add: courses_with_id_def demo_world_def get_prop_def)

lemma demo_course_2:
  "courses_with_id demo_world ''2'' =
     [[(''id'', Prim (Str ''2'')), (''title'', Prim (Str ''Vision'')),
       (''syllabus'', Prim (Str ''{not json''))]]"
  by (simp add: courses_with_id_def demo_world_def get_prop_def)

lemma demo_course_3: "courses_with_id demo_world ''3'' = []"
  by (simp add: courses_with_id_def demo_world_def get_prop_def)

section \<open>The claims\<close>

text \<open>
  C1, as amended. For every enrollment submission in which name, email, phone and
  courseId are all truthy, and whose insert the store accepts, the handler inserts
  exactly one enrollment row and responds with status 201 and a body that carries
  success: true and the identifier the store assigned as enrollmentId; response and
  inserted row are the same whatever the mail transport is: configured, not configured
  or rejecting.
\<close>

theorem enroll_valid_201:
  assumes "valid req_body"
    and "db_fault w INSERT_enrollment (insert_params req_body) = None"
  shows "fst (enroll req_body (w\<lparr>transporter := tr\<rparr>)) =
           Inr \<lparr>status = 201, body = enrollment_successful (auto_increment w)\<rparr>
         \<and> enrollments (snd (enroll req_body (w\<lparr>transporter := tr\<rparr>))) =
             enrollments w @
               [enrollment_row (auto_increment w) (field req_body ''name'') (field req_body ''email'')
                  (field req_body ''phone'') (status_or_default req_body) (field req_body ''courseId'')]"
  using assms enroll_accepted [of req_body "w\<lparr>transporter := tr\<rparr>"]
  by (simp add: inserted_def)

theorem enroll_valid_201_witness:
  "valid ann
   \<and> db_fault demo_world INSERT_enrollment (insert_params ann) = None
   \<and> fst (enroll ann (demo_world\<lparr>transporter := None\<rparr>)) =
       Inr \<lparr>status = 201, body = enrollment_successful 41\<rparr>
   \<and> fst (enroll ann (demo_world\<lparr>transporter := Some admin_bounces\<rparr>)) =
       Inr \<lparr>status = 201, body = enrollment_successful 41\<rparr>
   \<and> enrollments (snd (enroll ann (demo_world\<lparr>transporter := Some (\<lambda>m. None)\<rparr>))) =
       [enrollment_row 41 (Str ''Ann'') (Str ''ann@example.org'') (Str ''555'') (Str ''Pending'') (Num 7)]"
proof -
  have h1: "valid ann" by (simp add: demo_defs)
  have h2: "db_fault demo_world INSERT_enrollment (insert_params ann) = None"
    by (simp add: demo_world_def)
  from h1 h2 enroll_valid_201 [OF h1 h2, of None] enroll_valid_201 [OF h1 h2, of "Some admin_bounces"]
    enroll_valid_201 [OF h1 h2, of "Some (\<lambda>m. None)"]
  show ?thesis
    by (simp add: demo_defs)
qed

text \<open>
  C1 as it is worded fails twice. A submission whose courseId is the number 0 has all
  four fields present and none of them empty, yet it is answered with 400 and nothing is
  inserted. And a submission that passes the test is answered with 500, with no row
  inserted, when the store rejects the insert.
\<close>

theorem enroll_present_fields_counterexample:
  "field [(''name'', Str ''Ann''), (''email'', Str ''ann@example.org''), (''phone'', Str ''555''),
          (''courseId'', Num 0)] ''courseId'' = Num 0
   \<and> enroll [(''name'', Str ''Ann''), (''email'', Str ''ann@example.org''), (''phone'', Str ''555''),
             (''courseId'', Num 0)] demo_world =
       (Inr \<lparr>status = 400, body = all_fields_required\<rparr>, demo_world)
   \<and> fst (enroll ann (demo_world\<lparr>db_fault := store_down\<rparr>)) =
       Inr \<lparr>status = 500, body = server_error\<rparr>
   \<and> enrollments (snd (enroll ann (demo_world\<lparr>db_fault := store_down\<rparr>))) = enrollments demo_world"
proof -
  have a: "\<not> valid [(''name'', Str ''Ann''), (''email'', Str ''ann@example.org''), (''phone'', Str ''555''),
          (''courseId'', Num 0)]"
    by (simp add: valid_def required_def field_def)
  have b: "valid ann" by (simp add: demo_defs)
  have c: "db_fault (demo_world\<lparr>db_fault := store_down\<rparr>) INSERT_enrollment (insert_params ann) =
       Some (JsError ''connect ECONNREFUSED'')"
    by (simp add: store_down_def)
  show ?thesis
    using enroll_reject_400 [OF a, of demo_world] enroll_insert_rejected [OF b c]
    by (simp add: field_def)
qed

text \<open>
  C2. For every enrollment submission in which one of name, email, phone and courseId is
  absent or the empty string, the handler responds with status 400 and success: false,
  and the world is left as it was: no statement reaches the store, the enrollment table
  is unchanged.
\<close>

theorem enroll_missing_field_400:
  assumes "k \<in> set required"
    and "field req_body k = Undefined \<or> field req_body k = Str []"
  shows "enroll req_body w = (Inr \<lparr>status = 400, body = all_fields_required\<rparr>, w)"
proof (rule enroll_reject_400)
  from assms(2) have "\<not> truthy (field req_body k)" by auto
  with assms(1) show "\<not> valid req_body"
    by (auto simp: valid_def list_all_iff)
qed

theorem enroll_missing_field_400_witness:
  "''email'' \<in> set required
   \<and> (field [(''name'', Str ''Ann''), (''phone'', Str ''555''), (''courseId'', Num 7)] ''email'' = Undefined
      \<or> field [(''name'', Str ''Ann''), (''phone'', Str ''555''), (''courseId'', Num 7)] ''email'' = Str [])
   \<and> enroll [(''name'', Str ''Ann''), (''phone'', Str ''555''), (''courseId'', Num 7)] demo_world =
        (Inr \<lparr>status = 400, body = all_fields_required\<rparr>, demo_world)"
proof -
  have h1: "''email'' \<in> set required" by (simp add: required_def)
  have h2: "field [(''name'', Str ''Ann''), (''phone'', Str ''555''), (''courseId'', Num 7)] ''email'' = Undefined
      \<or> field [(''name'', Str ''Ann''), (''phone'', Str ''555''), (''courseId'', Num 7)] ''email'' = Str []"
    by (simp add: field_def)
  from h1 h2 enroll_missing_field_400 [OF h1 h2, of demo_world] show ?thesis by blast
qed

text \<open>
  C3. Every call of \<open>sendMailSafe\<close> resolves. With no transport configured it logs a
  warning and hands nothing to a transport. With a transport configured it hands the
  message over once, and when the transport rejects, the error's message is logged and
  the call still resolves. Both log texts name the recipient.
\<close>

theorem sendMailSafe_never_rejects:
  "sendMailSafe to subject html w =
     (Inr (),
      case transporter w of
        None \<Rightarrow> w\<lparr>console := console w @ [ConsoleWarn (skip_text to)]\<rparr>
      | Some t \<Rightarrow>
          w\<lparr>sendMail_calls := sendMail_calls w @ [mail_options w to subject html],
            console := console w @
              (case t (mail_options w to subject html) of
                 None \<Rightarrow> []
               | Some err \<Rightarrow> [ConsoleError (failure_text to) (Message (message err))])\<rparr>)
   \<and> Sub to \<in> set (skip_text to) \<and> Sub to \<in> set (failure_text to)"
  by (simp add: sendMailSafe_unconfigured sendMailSafe_configured logged_failure_def
      mail_options_def skip_text_def failure_text_def split: option.splits)

theorem sendMailSafe_never_rejects_witness:
  "fst (sendMailSafe (Str ''ann@example.org'') user_subject [] (demo_world\<lparr>transporter := None\<rparr>)) = Inr ()
   \<and> sendMail_calls (snd (sendMailSafe (Str ''ann@example.org'') user_subject []
        (demo_world\<lparr>transporter := None\<rparr>))) = []
   \<and> console (snd (sendMailSafe (Str ''ann@example.org'') user_subject []
        (demo_world\<lparr>transporter := None\<rparr>))) = [ConsoleWarn (skip_text (Str ''ann@example.org''))]
   \<and> fst (sendMailSafe admin_address admin_subject [] (demo_world\<lparr>transporter := Some admin_bounces\<rparr>)) = Inr ()
   \<and> console (snd (sendMailSafe admin_address admin_subject []
        (demo_world\<lparr>transporter := Some admin_bounces\<rparr>))) =
       [ConsoleError (failure_text admin_address) (Message ''Invalid login'')]"
  using sendMailSafe_never_rejects [of "Str ''ann@example.org''" user_subject "[]" "demo_world\<lparr>transporter := None\<rparr>"]
    sendMailSafe_never_rejects [of admin_address admin_subject "[]" "demo_world\<lparr>transporter := Some admin_bounces\<rparr>"]
  by (simp add: demo_world_def admin_bounces_def mail_options_def)

text \<open>
  C4. When the lookup by id finds a row whose syllabus is text that is not empty, the
  response has status 200 and carries the row with the syllabus decoded, or with the
  empty array when the text does not decode: \<^verbatim>\<open>[1,2,3]\<close> gives the array of 1, 2 and 3,
  \<^verbatim>\<open>{not json\<close> gives the empty array. The world is unchanged, nothing is logged.
\<close>

theorem get_course_by_id_decodes_syllabus:
  assumes "db_fault w SELECT_course_by_id [Str ident] = None"
    and "courses_with_id w ident = course # rest"
    and "get_prop course ''syllabus'' = Prim (Str s)"
    and "s \<noteq> []"
  shows "\<exists>v. get_course_by_id ident w =
               (Inr \<lparr>status = 200, body = Obj (set_prop course ''syllabus'' v)\<rparr>, w)
             \<and> get_prop (set_prop course ''syllabus'' v) ''syllabus'' = v
             \<and> v = (case JSON_parse s of Some d \<Rightarrow> d | None \<Rightarrow> Arr [])
             \<and> (s = ''[1,2,3]'' \<longrightarrow> v = Arr [Prim (Num 1), Prim (Num 2), Prim (Num 3)])
             \<and> (s = ''{not json'' \<longrightarrow> v = Arr [])"
  using assms
  by (simp add: get_course_by_id_found decode_syllabus_text get_prop_set_prop JSON_parse_123
      JSON_parse_not_json)

theorem get_course_by_id_decodes_syllabus_witness:
  "get_course_by_id ''1'' demo_world =
     (Inr \<lparr>status = 200,
           body = Obj [(''id'', Prim (Str ''1'')), (''title'', Prim (Str ''Deep Learning'')),
                       (''syllabus'', Arr [Prim (Num 1), Prim (Num 2), Prim (Num 3)])]\<rparr>,
      demo_world)
   \<and> get_course_by_id ''2'' demo_world =
     (Inr \<lparr>status = 200,
           body = Obj [(''id'', Prim (Str ''2'')), (''title'', Prim (Str ''Vision'')),
                       (''syllabus'', Arr [])]\<rparr>,
      demo_world)"
proof -
  have f: "db_fault demo_world SELECT_course_by_id [Str i] = None" for i
    by (simp add: demo_world_def)
  have s1: "get_prop [(''id'', Prim (Str ''1'')), (''title'', Prim (Str ''Deep Learning'')),
       (''syllabus'', Prim (Str ''[1,2,3]''))] ''syllabus'' = Prim (Str ''[1,2,3]'')"
    by (simp add: get_prop_def)
  have s2: "get_prop [(''id'', Prim (Str ''2'')), (''title'', Prim (Str ''Vision'')),
       (''syllabus'', Prim (Str ''{not json''))] ''syllabus'' = Prim (Str ''{not json'')"
    by (simp add: get_prop_def)
  have n1: "''[1,2,3]'' \<noteq> []" and n2: "''{not json'' \<noteq> []" by simp_all
  from get_course_by_id_decodes_syllabus [OF f demo_course_1 s1 n1]
    get_course_by_id_decodes_syllabus [OF f demo_course_2 s2 n2]
  show ?thesis by auto
qed

text \<open>
  C5. After an accepted insert the two notifications are attempted in order, to the
  administrative address first and to the enrollee's address second. Whatever the
  transport answers to either message, both are handed to it, each rejection is logged
  once, the response is 201 and the inserted row stays. With no transport configured the
  two warnings are logged in the same order.
\<close>

theorem enroll_notifications_isolated:
  assumes "valid req_body"
    and "db_fault w INSERT_enrollment (insert_params req_body) = None"
  shows "enroll req_body w =
     (Inr \<lparr>status = 201, body = enrollment_successful (auto_increment w)\<rparr>,
      case transporter w of
        None \<Rightarrow>
          (inserted req_body w)\<lparr>console := console w @
             [ConsoleWarn (skip_text admin_address),
              ConsoleWarn (skip_text (field req_body ''email''))]\<rparr>
      | Some t \<Rightarrow>
          (inserted req_body w)\<lparr>sendMail_calls := sendMail_calls w @
             [admin_mail w req_body, user_mail w req_body],
           console := console w @ logged_failure t (admin_mail w req_body)
                        @ logged_failure t (user_mail w req_body)\<rparr>)"
  using assms
  by (cases "transporter w") (simp_all add: enroll_accepted_unconfigured enroll_accepted_configured)

theorem enroll_notifications_isolated_witness:
  "valid ann
   \<and> db_fault (demo_world\<lparr>transporter := Some admin_bounces\<rparr>) INSERT_enrollment (insert_params ann) = None
   \<and> fst (enroll ann (demo_world\<lparr>transporter := Some admin_bounces\<rparr>)) =
       Inr \<lparr>status = 201, body = enrollment_successful 41\<rparr>
   \<and> map mail_to (sendMail_calls (snd (enroll ann (demo_world\<lparr>transporter := Some admin_bounces\<rparr>)))) =
       [admin_address, Str ''ann@example.org'']
   \<and> console (snd (enroll ann (demo_world\<lparr>transporter := Some admin_bounces\<rparr>))) =
       [ConsoleError (failure_text admin_address) (Message ''Invalid login'')]
   \<and> enrollments (snd (enroll ann (demo_world\<lparr>transporter := Some admin_bounces\<rparr>))) =
       [enrollment_row 41 (Str ''Ann'') (Str ''ann@example.org'') (Str ''555'') (Str ''Pending'') (Num 7)]"
proof -
  have h1: "valid ann" by (simp add: demo_defs)
  have h2: "db_fault (demo_world\<lparr>transporter := Some admin_bounces\<rparr>) INSERT_enrollment (insert_params ann) = None"
    by (simp add: demo_world_def)
  from h1 h2 enroll_notifications_isolated [OF h1 h2] show ?thesis
    by (simp add: demo_defs inserted_def logged_failure_def admin_bounces_def admin_mail_def
        user_mail_def mail_options_def admin_address_def)
qed

text \<open>
  C6. When the store rejects the insert, the handler responds with status 500 and
  success: false, and the world differs from the one before only by the logged error: no
  row, no message handed to a transport, no warning. Since every call of \<open>sendMailSafe\<close>
  hands a message to the transport or logs its warning, no such call was made.
\<close>

theorem enroll_insert_fails_500:
  assumes "valid req_body"
    and "db_fault w INSERT_enrollment (insert_params req_body) = Some e"
  shows "enroll req_body w =
           (Inr \<lparr>status = 500, body = server_error\<rparr>,
            w\<lparr>console := console w @ [ConsoleError [Lit ''Enrollment Error:''] (Thrown e)]\<rparr>)
         \<and> (\<forall>to subject html w0.
               sendMail_calls (snd (sendMailSafe to subject html w0)) =
                 sendMail_calls w0 @ [mail_options w0 to subject html]
               \<or> console (snd (sendMailSafe to subject html w0)) =
                 console w0 @ [ConsoleWarn (skip_text to)])"
proof -
  have "sendMail_calls (snd (sendMailSafe to subject html w0)) =
          sendMail_calls w0 @ [mail_options w0 to subject html]
        \<or> console (snd (sendMailSafe to subject html w0)) = console w0 @ [ConsoleWarn (skip_text to)]"
    for to subject html w0
    by (cases "transporter w0") (simp_all add: sendMailSafe_unconfigured sendMailSafe_configured)
  with assms show ?thesis by (simp add: enroll_insert_rejected)
qed

theorem enroll_insert_fails_500_witness:
  "valid ann
   \<and> db_fault (demo_world\<lparr>db_fault := store_down\<rparr>) INSERT_enrollment (insert_params ann) =
       Some (JsError ''connect ECONNREFUSED'')
   \<and> fst (enroll ann (demo_world\<lparr>db_fault := store_down\<rparr>)) = Inr \<lparr>status = 500, body = server_error\<rparr>
   \<and> enrollments (snd (enroll ann (demo_world\<lparr>db_fault := store_down\<rparr>))) = []
   \<and> sendMail_calls (snd (enroll ann (demo_world\<lparr>db_fault := store_down\<rparr>))) = []
   \<and> console (snd (enroll ann (demo_world\<lparr>db_fault := store_down\<rparr>))) =
       [ConsoleError [Lit ''Enrollment Error:''] (Thrown (JsError ''connect ECONNREFUSED''))]"
proof -
  have h1: "valid ann" by (simp add: demo_defs)
  have h2: "db_fault (demo_world\<lparr>db_fault := store_down\<rparr>) INSERT_enrollment (insert_params ann) =
       Some (JsError ''connect ECONNREFUSED'')"
    by (simp add: store_down_def)
  from h1 h2 enroll_insert_fails_500 [OF h1 h2] show ?thesis
    by (simp add: demo_world_def)
qed

text \<open>
  C7. The lookup by id answers 404 with the body "Course not found" exactly when the
  store accepts the statement and returns no row, and 500 exactly when the store rejects
  the statement; it always answers.
\<close>

theorem get_course_by_id_404_or_500:
  "(db_fault w SELECT_course_by_id [Str ident] = None \<and> courses_with_id w ident = [] \<longrightarrow>
      get_course_by_id ident w =
        (Inr \<lparr>status = 404, body = error_body ''Course not found''\<rparr>, w))
   \<and> (\<forall>e. db_fault w SELECT_course_by_id [Str ident] = Some e \<longrightarrow>
        get_course_by_id ident w =
          (Inr \<lparr>status = 500, body = error_body ''Internal server error''\<rparr>,
           w\<lparr>console := console w @
                [ConsoleError [Lit (cross_mark @ '' Error fetching course by ID:'')] (Thrown e)]\<rparr>))
   \<and> (\<exists>r. fst (get_course_by_id ident w) = Inr r
         \<and> (status r = 404 \<longleftrightarrow>
              db_fault w SELECT_course_by_id [Str ident] = None \<and> courses_with_id w ident = [])
         \<and> (status r = 500 \<longleftrightarrow> db_fault w SELECT_course_by_id [Str ident] \<noteq> None))"
proof (cases "db_fault w SELECT_course_by_id [Str ident]")
  case None
  show ?thesis
  proof (cases "courses_with_id w ident")
    case Nil
    with None show ?thesis by (simp add: get_course_by_id_absent)
  next
    case (Cons course rest)
    with None show ?thesis by (simp add: get_course_by_id_found)
  qed
next
  case (Some e)
  then show ?thesis by (simp add: get_course_by_id_store_error)
qed

theorem get_course_by_id_404_or_500_witness:
  "get_course_by_id ''3'' demo_world =
     (Inr \<lparr>status = 404, body = error_body ''Course not found''\<rparr>, demo_world)
   \<and> fst (get_course_by_id ''3'' (demo_world\<lparr>db_fault := store_down\<rparr>)) =
       Inr \<lparr>status = 500, body = error_body ''Internal server error''\<rparr>
   \<and> fst (get_course_by_id ''1'' (demo_world\<lparr>db_fault := store_down\<rparr>)) =
       Inr \<lparr>status = 500, body = error_body ''Internal server error''\<rparr>"
  using get_course_by_id_404_or_500 [of demo_world "''3''"]
    get_course_by_id_404_or_500 [of "demo_world\<lparr>db_fault := store_down\<rparr>" "''3''"]
    get_course_by_id_404_or_500 [of "demo_world\<lparr>db_fault := store_down\<rparr>" "''1''"]
    demo_course_3
  by (simp add: store_down_def) (simp add: demo_world_def)

text \<open>
  C8. The listing returns the rows of the table as they are stored, none decoded. For a
  course whose syllabus is text that encodes an array, the listing holds the row with
  the text, and the lookup by id returns the row with the array.
\<close>

theorem list_raw_fetch_decoded:
  "(db_fault w SELECT_courses [] = None \<longrightarrow>
      get_courses w = (Inr \<lparr>status = 200, body = Arr (map Obj (courses w))\<rparr>, w))
   \<and> (db_fault w SELECT_course_by_id [Str ident] = None \<and> courses_with_id w ident = course # rest
        \<and> get_prop course ''syllabus'' = Prim (Str s) \<and> JSON_parse s = Some (Arr xs) \<longrightarrow>
      Obj course \<in> set (map Obj (courses w))
      \<and> get_course_by_id ident w =
          (Inr \<lparr>status = 200, body = Obj (set_prop course ''syllabus'' (Arr xs))\<rparr>, w)
      \<and> get_prop (set_prop course ''syllabus'' (Arr xs)) ''syllabus'' = Arr xs)"
proof -
  have a: "get_courses w = (Inr \<lparr>status = 200, body = Arr (map Obj (courses w))\<rparr>, w)"
    if "db_fault w SELECT_courses [] = None"
    using that by (simp add: get_courses_def db_select_courses_def io_defs)
  have b: "Obj course \<in> set (map Obj (courses w))
      \<and> get_course_by_id ident w =
          (Inr \<lparr>status = 200, body = Obj (set_prop course ''syllabus'' (Arr xs))\<rparr>, w)
      \<and> get_prop (set_prop course ''syllabus'' (Arr xs)) ''syllabus'' = Arr xs"
    if f: "db_fault w SELECT_course_by_id [Str ident] = None"
      and c: "courses_with_id w ident = course # rest"
      and t: "get_prop course ''syllabus'' = Prim (Str s)"
      and p: "JSON_parse s = Some (Arr xs)"
  proof -
    from p have "s \<noteq> []" using JSON_parse_empty by auto
    with t p have "decode_syllabus course = set_prop course ''syllabus'' (Arr xs)"
      by (simp add: decode_syllabus_text)
    moreover from c have "course \<in> set (courses w)"
      by (metis courses_with_id_def filter_is_subset list.set_intros(1) subsetD)
    ultimately show ?thesis
      using f c by (simp add: get_course_by_id_found get_prop_set_prop)
  qed
  from a b show ?thesis by blast
qed

theorem list_raw_fetch_decoded_witness:
  "get_courses demo_world = (Inr \<lparr>status = 200, body = Arr (map Obj (courses demo_world))\<rparr>, demo_world)
   \<and> Obj [(''id'', Prim (Str ''1'')), (''title'', Prim (Str ''Deep Learning'')),
          (''syllabus'', Prim (Str ''[1,2,3]''))] \<in> set (map Obj (courses demo_world))
   \<and> get_course_by_id ''1'' demo_world =
     (Inr \<lparr>status = 200,
           body = Obj [(''id'', Prim (Str ''1'')), (''title'', Prim (Str ''Deep Learning'')),
                       (''syllabus'', Arr [Prim (Num 1), Prim (Num 2), Prim (Num 3)])]\<rparr>,
      demo_world)"
proof -
  have f1: "db_fault demo_world SELECT_courses [] = None"
    and f2: "db_fault demo_world SELECT_course_by_id [Str ''1''] = None"
    by (simp_all add: demo_world_def)
  have t: "get_prop [(''id'', Prim (Str ''1'')), (''title'', Prim (Str ''Deep Learning'')),
       (''syllabus'', Prim (Str ''[1,2,3]''))] ''syllabus'' = Prim (Str ''[1,2,3]'')"
    by (simp add: get_prop_def)
  from list_raw_fetch_decoded [of demo_world "''1''" _ "[]" "''[1,2,3]''"
      "[Prim (Num 1), Prim (Num 2), Prim (Num 3)]"] f1 f2 t demo_course_1 JSON_parse_123
  show ?thesis by simp
qed

text \<open>
  C9. The status that is inserted is "Pending" only when the body carries no status;
  a status of null or of the empty string is inserted as it is. Whatever the status, a
  submission whose four required fields are truthy is not answered with 400.
\<close>

theorem status_default_only_when_absent:
  assumes "valid req_body"
  shows "status_or_default req_body =
           (if field req_body ''status'' = Undefined then Str ''Pending'' else field req_body ''status'')
         \<and> (\<exists>r. fst (enroll req_body w) = Inr r \<and> status r \<noteq> 400)
         \<and> (db_fault w INSERT_enrollment (insert_params req_body) = None \<longrightarrow>
              enrollments (snd (enroll req_body w)) =
                enrollments w @
                  [enrollment_row (auto_increment w) (field req_body ''name'') (field req_body ''email'')
                     (field req_body ''phone'')
                     (if field req_body ''status'' = Undefined then Str ''Pending''
                      else field req_body ''status'')
                     (field req_body ''courseId'')])"
proof -
  have a: "status_or_default req_body =
           (if field req_body ''status'' = Undefined then Str ''Pending'' else field req_body ''status'')"
    by (simp add: status_or_default_def split: prim.splits)
  have b: "\<exists>r. fst (enroll req_body w) = Inr r \<and> status r \<noteq> 400"
  proof (cases "db_fault w INSERT_enrollment (insert_params req_body)")
    case None
    with assms show ?thesis
      using enroll_accepted [of req_body w] by simp
  next
    case (Some e)
    with assms show ?thesis by (simp add: enroll_insert_rejected)
  qed
  have c: "enrollments (snd (enroll req_body w)) =
             enrollments w @
               [enrollment_row (auto_increment w) (field req_body ''name'') (field req_body ''email'')
                  (field req_body ''phone'') (status_or_default req_body) (field req_body ''courseId'')]"
    if "db_fault w INSERT_enrollment (insert_params req_body) = None"
    using assms that enroll_accepted [of req_body w] by (simp add: inserted_def)
  from a b c show ?thesis by simp
qed

theorem status_default_only_when_absent_witness:
  "valid ((''status'', Null) # ann) \<and> valid ((''status'', Str []) # ann) \<and> valid ann
   \<and> status_or_default ((''status'', Null) # ann) = Null
   \<and> status_or_default ((''status'', Str []) # ann) = Str []
   \<and> status_or_default ann = Str ''Pending''
   \<and> enrollments (snd (enroll ((''status'', Null) # ann) demo_world)) =
       [enrollment_row 41 (Str ''Ann'') (Str ''ann@example.org'') (Str ''555'') Null (Num 7)]
   \<and> enrollments (snd (enroll ((''status'', Str []) # ann) demo_world)) =
       [enrollment_row 41 (Str ''Ann'') (Str ''ann@example.org'') (Str ''555'') (Str []) (Num 7)]
   \<and> enrollments (snd (enroll ann demo_world)) =
       [enrollment_row 41 (Str ''Ann'') (Str ''ann@example.org'') (Str ''555'') (Str ''Pending'') (Num 7)]"
proof -
  have h1: "valid ((''status'', Null) # ann)" by (simp add: demo_defs)
  have h2: "valid ((''status'', Str []) # ann)" by (simp add: demo_defs)
  have h3: "valid ann" by (simp add: demo_defs)
  from h1 h2 h3
    status_default_only_when_absent [OF h1, of demo_world]
    status_default_only_when_absent [OF h2, of demo_world]
    status_default_only_when_absent [OF h3, of demo_world]
  show ?thesis
    by (simp add: demo_world_def ann_def field_def)
qed

text \<open>
  C10. A submission in which a required field is the number 0 or false is answered like
  one that leaves the field out: status 400, "All fields are required", world unchanged.
\<close>

theorem enroll_falsy_field_400:
  assumes "k \<in> set required"
    and "field req_body k = Num 0 \<or> field req_body k = Bool False"
  shows "enroll req_body w = (Inr \<lparr>status = 400, body = all_fields_required\<rparr>, w)
         \<and> enroll (filter (\<lambda>p. fst p \<noteq> k) req_body) w = enroll req_body w"
proof -
  from assms(2) have "\<not> truthy (field req_body k)" by auto
  with assms(1) have a: "\<not> valid req_body" by (auto simp: valid_def list_all_iff)
  have "\<not> truthy (field (filter (\<lambda>p. fst p \<noteq> k) req_body) k)"
    by (simp add: field_removed)
  with assms(1) have b: "\<not> valid (filter (\<lambda>p. fst p \<noteq> k) req_body)"
    by (auto simp: valid_def list_all_iff)
  from a b show ?thesis by (simp add: enroll_reject_400)
qed

theorem enroll_falsy_field_400_witness:
  "''courseId'' \<in> set required
   \<and> (field [(''name'', Str ''Ann''), (''email'', Str ''ann@example.org''), (''phone'', Str ''555''), (''courseId'', Num 0)] ''courseId'' = Num 0
      \<or> field [(''name'', Str ''Ann''), (''email'', Str ''ann@example.org''), (''phone'', Str ''555''), (''courseId'', Num 0)] ''courseId'' = Bool False)
   \<and> enroll [(''name'', Str ''Ann''), (''email'', Str ''ann@example.org''), (''phone'', Str ''555''), (''courseId'', Num 0)] demo_world =
        (Inr \<lparr>status = 400, body = all_fields_required\<rparr>, demo_world)
   \<and> enroll [(''name'', Str ''Ann''), (''email'', Str ''ann@example.org''), (''phone'', Str ''555'')] demo_world =
        (Inr \<lparr>status = 400, body = all_fields_required\<rparr>, demo_world)"
proof -
  let ?b = "[(''name'', Str ''Ann''), (''email'', Str ''ann@example.org''), (''phone'', Str ''555''), (''courseId'', Num 0)]"
  have h1: "''courseId'' \<in> set required" by (simp add: required_def)
  have h2: "field ?b ''courseId'' = Num 0 \<or> field ?b ''courseId'' = Bool False"
    by (simp add: field_def)
  from h1 h2 enroll_falsy_field_400 [OF h1 h2, of demo_world] show ?thesis by simp
qed

end
